theory Spec2Isabelle
  imports Complex_Main "HOL-Library.Multiset" "HOL-Library.Log_Nat"
begin

section \<open>Conventions of the embedding\<close>

text \<open>
  The backend is TypeScript. Its values are embedded as follows.

  \<^item> A JavaScript \<open>number\<close> that carries a price, a balance, a value or a percentage is a
    \<open>real\<close>; there is no \<open>NaN\<close> and no infinity. The portfolio valuator rounds the result
    of each multiplication, addition and division by \<open>fl\<close>, the rounding of the number
    type, which is a field of the collaborators: \<open>binary64\<close> below for the program as it
    runs, the identity for exact arithmetic. The arithmetic of the simulation is exact.
  \<^item> A raw-unit token amount, which the quote API transports as a decimal string
    (\<open>outAmount\<close>, \<open>otherAmountThreshold\<close>, \<open>feeAmount\<close>), is the \<open>nat\<close> it denotes;
    \<open>BigInt(s)\<close> and \<open>Number.parseFloat(s)\<close> read that number.
  \<^item> A point in time (\<open>Date.now()\<close>, an ISO timestamp column) is an \<open>int\<close> of epoch
    milliseconds.
  \<^item> Every \<open>throw new Error(msg)\<close> is the value \<open>Error msg\<close>; a function that can throw
    returns a sum with the error on the left.
  \<^item> Module-level caches and the database tables are fields of an explicit \<open>world\<close> that
    every operation takes and returns. The external collaborators (wall clock, chain RPC,
    price API, token registry, quote API) are fields of an immutable \<open>env\<close>; a collaborator
    whose request throws answers \<open>None\<close>.
  \<^item> A table is the list of its rows in insertion order, and a well-formed write to it
    succeeds.
\<close>

datatype error = Error string

section \<open>IEEE 754 binary64\<close>

text \<open>
  The rounding of a real to the nearest double, ties to even, with 53 significant bits:
  for \<open>x\<close> with \<open>2^e \<le> |x| < 2^(e+1)\<close> the doubles around \<open>x\<close> are the multiples of
  \<open>2^(e-52)\<close>. The exponent range is not bounded: no overflow, no subnormal numbers.
  \<open>float_exponent x\<close> is that \<open>e\<close>, computed from the bit length of the integer part of
  \<open>|x|\<close>, or of \<open>1 / |x|\<close> when \<open>|x| < 1\<close>.
\<close>

definition round_half_even :: "real \<Rightarrow> int" where
  "round_half_even x =
     (let f = \<lfloor>x\<rfloor>; d = x - of_int f
      in if d < 1 / 2 then f else if 1 / 2 < d then f + 1 else if even f then f else f + 1)"

definition float_exponent :: "real \<Rightarrow> int" where
  "float_exponent x =
     (if 1 \<le> \<bar>x\<bar> then bitlen \<lfloor>\<bar>x\<bar>\<rfloor> - 1 else - bitlen (\<lceil>1 / \<bar>x\<bar>\<rceil> - 1))"

definition binary64 :: "real \<Rightarrow> real" where
  "binary64 x =
     (if x = 0 then 0
      else let q = 2 powi (float_exponent x - 52)
           in of_int (round_half_even (x / q)) * q)"

section \<open>Models\<close>

subsection \<open>token.model\<close>

record TokenInfo =
  ti_symbol :: string
  ti_name :: string
  ti_mint :: string
  ti_decimals :: nat
  ti_balance :: real
  ti_value :: real
  ti_percentage :: real
  ti_icon :: string

record TokenMetadata =
  tm_symbol :: string
  tm_name :: string
  tm_icon :: "string option"
  tm_decimals :: nat

subsection \<open>portfolio.model\<close>

record Portfolio =
  totalValue :: real
  tokens :: "TokenInfo list"

subsection \<open>jupiter.model\<close>

record JupiterQuoteParams =
  qp_inputMint :: string
  qp_outputMint :: string
  qp_amount :: real
  qp_slippageBps :: "nat option"

text \<open>
  The quote parameters above are without \<open>onlyDirectRoutes\<close>, \<open>asLegacyTransaction\<close>
  and \<open>maxAccounts\<close>, which the services never set; the quote response below is without
  its \<open>routePlan\<close>, which no function of the backend reads.
\<close>

record JupiterQuoteResponse =
  inputMint :: string
  outputMint :: string
  inAmount :: nat
  outAmount :: nat
  otherAmountThreshold :: nat
  swapMode :: string
  slippageBps :: nat
  priceImpactPct :: string
  contextSlot :: nat
  timeTaken :: real
  inputDecimals :: nat
  outputDecimals :: nat
  feeAmount :: nat

record JupiterSwapParams =
  sp_walletAddress :: string
  sp_inputMint :: string
  sp_outputMint :: string
  sp_amount :: real
  sp_slippageBps :: "nat option"

text \<open>
  A \<open>TransactionInstruction\<close> of web3.js: the program, the account keys with their signer
  and writable flags, and the data bytes.
\<close>

record AccountMeta =
  pubkey :: string
  isSigner :: bool
  isWritable :: bool

record TransactionInstruction =
  programId :: string
  keys :: "AccountMeta list"
  ix_data :: "nat list"

record JupiterSwapResponse =
  route :: JupiterQuoteResponse
  sr_instructions :: "TransactionInstruction list"

subsection \<open>liquidate.model\<close>

record LiquidateOptions =
  targetToken :: string
  includeDust :: bool
  minTokenValueUsd :: "real option"
  lo_slippageBps :: "nat option"

record SimulationResult =
  inputTokens :: "TokenInfo list"
  totalInputValue :: real
  sim_targetToken :: string
  totalOutputAmount :: real
  jupiterFees :: real
  porgFee :: real
  finalOutputAmount :: real
  quotes :: "JupiterQuoteResponse list"

subsection \<open>transaction.model\<close>

datatype TransactionType = LIQUIDATE | BRIDGE | LIQUIDATE_AND_BRIDGE | UNKNOWN

record token_leg =
  leg_mint :: string
  leg_symbol :: string
  leg_amount :: real
  leg_valueUsd :: real

record bridge_leg =
  sourceChain :: string
  targetChain :: string
  recipientAddress :: string

record TransactionDetails =
  tx_id :: string
  tx_type :: TransactionType
  tx_timestamp :: int
  tx_status :: string
  tx_fee :: nat
  tx_inputTokens :: "token_leg list option"
  tx_outputToken :: "token_leg option"
  tx_bridgeDetails :: "bridge_leg option"

section \<open>Chain data, database rows, collaborators and state\<close>

text \<open>
  The reply of \<open>connection.getTransaction\<close>, as far as the backend reads it. The message
  of a legacy transaction has \<open>instructions\<close>, compiled instructions that carry a
  \<open>programIdIndex\<close> and no \<open>programId\<close>, and \<open>accountKeys\<close>; the message of a version 0
  transaction has neither property. \<open>blockTime\<close> is in seconds (an absent one counts as
  0 in \<open>blockTime! * 1000\<close>), and of the \<open>meta\<close>, which may be absent, the backend reads
  whether \<open>err\<close> is set and the fee.
\<close>

record tx_meta =
  meta_err :: bool
  meta_fee :: nat

record TransactionResponse =
  tr_instructions :: "nat list option"
  tr_accountKeys :: "string list option"
  tr_blockTime :: int
  tr_meta :: "tx_meta option"

text \<open>
  The object the parser is handed, typed \<open>ParsedTransactionWithMeta\<close> in the source, by
  the properties the parser reads: \<open>message.instructions\<close> may be absent, and so may the
  \<open>programId\<close> of an instruction.
\<close>

record ParsedTransactionWithMeta =
  message_instructions :: "string option list option"
  message_accountKeys :: "string list option"
  blockTime :: int
  meta :: "tx_meta option"

text \<open>
  \<open>getTransactionDetails\<close> hands the reply of \<open>getTransaction\<close> to the parser as it is:
  the same object, whose instructions have no \<open>programId\<close>.
\<close>

definition as_parsed :: "TransactionResponse \<Rightarrow> ParsedTransactionWithMeta" where
  "as_parsed reply =
     \<lparr>message_instructions = map_option (map (\<lambda>programIdIndex. None)) (tr_instructions reply),
      message_accountKeys = tr_accountKeys reply,
      blockTime = tr_blockTime reply,
      meta = tr_meta reply\<rparr>"

text \<open>One entry of \<open>getParsedTokenAccountsByOwner\<close>: \<open>account.data.parsed.info\<close>.\<close>

record parsed_account =
  pa_mint :: string
  pa_uiAmount :: real
  pa_decimals :: nat

text \<open>The rows of the four tables of \<open>init.sql\<close>.\<close>

record token_metadata_row =
  mr_mint :: string
  mr_symbol :: string
  mr_name :: string
  mr_icon :: "string option"
  mr_decimals :: nat
  mr_updated_at :: int

record token_price_row =
  pr_mint :: string
  pr_price :: real
  pr_updated_at :: int

record portfolio_cache_row =
  pc_wallet_address :: string
  pc_total_value :: real
  pc_tokens :: "TokenInfo list"
  pc_created_at :: int

record transaction_row =
  signature :: string
  wallet_address :: string
  row_type :: TransactionType
  row_status :: string
  row_fee :: nat
  row_timestamp :: int
  input_tokens :: "token_leg list option"
  output_token :: "token_leg option"
  bridge_details :: "bridge_leg option"
  created_at :: int

text \<open>The entry of the in-memory \<open>tokenPriceCache\<close>.\<close>

record price_slot =
  slot_price :: real
  slot_timestamp :: int

record env =
  clock :: "nat \<Rightarrow> int"
  fl :: "real \<Rightarrow> real"
  rpc_tokenAccountsByOwner :: "string \<Rightarrow> parsed_account list option"
  rpc_tokenAccountsByMint :: "string \<Rightarrow> string \<Rightarrow> string list option"
  rpc_getLatestBlockhash :: "string option"
  rpc_getTransaction :: "string \<Rightarrow> TransactionResponse option option"
  price_api :: "string \<Rightarrow> real option"
  token_list_api :: "string \<Rightarrow> TokenMetadata option"
  jupiter_quote_api :: "JupiterQuoteParams \<Rightarrow> JupiterQuoteResponse option"
  jupiter_swap_api :: "JupiterQuoteResponse \<Rightarrow> string \<Rightarrow> bool"

text \<open>
  \<open>ticks\<close> counts the readings of the wall clock so far: the next reading is
  \<open>clock env (ticks w)\<close>. \<open>price_api_calls\<close> is the trace of the requests sent to the
  price API, oldest first.
\<close>

record world =
  ticks :: nat
  tokenPriceCache :: "string \<rightharpoonup> price_slot"
  tokenMetadataCache :: "string \<rightharpoonup> TokenMetadata"
  token_metadata :: "token_metadata_row list"
  token_prices :: "token_price_row list"
  portfolio_cache :: "portfolio_cache_row list"
  transactions :: "transaction_row list"
  price_api_calls :: "string list"

definition Date_now :: "env \<Rightarrow> world \<Rightarrow> int \<times> world" where
  "Date_now e w = (clock e (ticks w), w\<lparr>ticks := Suc (ticks w)\<rparr>)"

text \<open>
  \<open>.order(col, { ascending: false }).limit(1).single()\<close>: the row with the greatest
  value of the column, the earliest inserted among equals; no row is the error of
  \<open>single()\<close>.
\<close>

fun latest_by :: "('a \<Rightarrow> int) \<Rightarrow> 'a list \<Rightarrow> 'a option" where
  "latest_by t [] = None"
| "latest_by t (r # rs) =
     (case latest_by t rs of
        None \<Rightarrow> Some r
      | Some r' \<Rightarrow> if t r < t r' then Some r' else Some r)"

section \<open>web3.js PublicKey\<close>

text \<open>
  \<open>new PublicKey(s)\<close> on a string decodes it as base58 and throws
  \<open>Invalid public key input\<close> unless the decoded bytes are 32; the decoder throws on a
  character outside the alphabet. The decoded bytes are one zero byte for each leading
  \<open>1\<close>, followed by the big-endian bytes of the number the string denotes in base 58.
\<close>

definition base58_alphabet :: string where
  "base58_alphabet = ''123456789ABCDEFGHJKLMNPQRSTUVWXYZabcdefghijkmnopqrstuvwxyz''"

fun base58_digit :: "char \<Rightarrow> string \<Rightarrow> nat option" where
  "base58_digit c [] = None"
| "base58_digit c (a # as) = (if c = a then Some 0 else map_option Suc (base58_digit c as))"

fun base58_value :: "nat \<Rightarrow> string \<Rightarrow> nat option" where
  "base58_value acc [] = Some acc"
| "base58_value acc (c # cs) =
     (case base58_digit c base58_alphabet of
        None \<Rightarrow> None
      | Some d \<Rightarrow> base58_value (acc * 58 + d) cs)"

function bytes_of :: "nat \<Rightarrow> nat list" where
  "bytes_of n = (if n = 0 then [] else bytes_of (n div 256) @ [n mod 256])"
  by pat_completeness auto
termination
  by (relation "measure id") auto

declare bytes_of.simps [simp del]

definition bs58_decode :: "string \<Rightarrow> nat list option" where
  "bs58_decode s =
     (case base58_value 0 s of
        None \<Rightarrow> None
      | Some v \<Rightarrow> Some (replicate (length (takeWhile (\<lambda>c. c = CHR ''1'') s)) 0 @ bytes_of v))"

definition isPublicKey :: "string \<Rightarrow> bool" where
  "isPublicKey s = (case bs58_decode s of None \<Rightarrow> False | Some bytes \<Rightarrow> length bytes = 32)"

definition PublicKey :: "string \<Rightarrow> error + string" where
  "PublicKey s = (if isPublicKey s then Inr s else Inl (Error ''Invalid public key input''))"

section \<open>utils/price-oracle\<close>

definition CACHE_EXPIRATION :: int where
  "CACHE_EXPIRATION = 5 * 60 * 1000"

text \<open>
  The \<open>upsert\<close> on \<open>token_prices\<close> carries no \<open>id\<close>, so it inserts a row; the
  \<open>UNIQUE(mint, updated_at)\<close> constraint rejects a second row of the same mint and time,
  and the code does not look at the error.
\<close>

definition upsert_token_price :: "token_price_row \<Rightarrow> token_price_row list \<Rightarrow> token_price_row list" where
  "upsert_token_price row rows =
     (if list_ex (\<lambda>r. pr_mint r = pr_mint row \<and> pr_updated_at r = pr_updated_at row) rows
      then rows
      else rows @ [row])"

text \<open>
  The request to the price API and what follows it inside the \<open>try\<close>. The first
  component is \<open>None\<close> when the request throws.
\<close>

definition getTokenPrice_fetch :: "env \<Rightarrow> world \<Rightarrow> string \<Rightarrow> int \<Rightarrow> real option \<times> world" where
  "getTokenPrice_fetch e w mint now =
     (let w1 = w\<lparr>price_api_calls := price_api_calls w @ [mint]\<rparr>
      in case price_api e mint of
           None \<Rightarrow> (None, w1)
         | Some price \<Rightarrow>
             (let (t, w2) = Date_now e w1;
                  w3 = w2\<lparr>token_prices :=
                         upsert_token_price \<lparr>pr_mint = mint, pr_price = price, pr_updated_at = t\<rparr>
                           (token_prices w2)\<rparr>;
                  w4 = w3\<lparr>tokenPriceCache :=
                         (tokenPriceCache w3)(mint \<mapsto> \<lparr>slot_price = price, slot_timestamp = now\<rparr>)\<rparr>
              in (Some price, w4)))"

text \<open>The body of the \<open>try\<close>: the database cache, then the price API.\<close>

definition getTokenPrice_try :: "env \<Rightarrow> world \<Rightarrow> string \<Rightarrow> int \<Rightarrow> real option \<times> world" where
  "getTokenPrice_try e w mint now =
     (case latest_by pr_updated_at (filter (\<lambda>r. pr_mint r = mint) (token_prices w)) of
        None \<Rightarrow> getTokenPrice_fetch e w mint now
      | Some cachedPrice \<Rightarrow>
          if now - pr_updated_at cachedPrice < CACHE_EXPIRATION
          then (Some (pr_price cachedPrice),
                w\<lparr>tokenPriceCache :=
                    (tokenPriceCache w)(mint \<mapsto> \<lparr>slot_price = pr_price cachedPrice, slot_timestamp = now\<rparr>)\<rparr>)
          else getTokenPrice_fetch e w mint now)"

text \<open>The \<open>try\<close> with its \<open>catch\<close>: a stale in-memory entry, else the default 1.0.\<close>

definition getTokenPrice_miss :: "env \<Rightarrow> world \<Rightarrow> string \<Rightarrow> int \<Rightarrow> real \<times> world" where
  "getTokenPrice_miss e w mint now =
     (case getTokenPrice_try e w mint now of
        (Some price, w') \<Rightarrow> (price, w')
      | (None, w') \<Rightarrow>
          (case tokenPriceCache w' mint of
             Some slot \<Rightarrow> (slot_price slot, w')
           | None \<Rightarrow> (1.0, w')))"

definition getTokenPrice :: "env \<Rightarrow> world \<Rightarrow> string \<Rightarrow> real \<times> world" where
  "getTokenPrice e w mint =
     (let (now, w1) = Date_now e w
      in case tokenPriceCache w1 mint of
           None \<Rightarrow> getTokenPrice_miss e w1 mint now
         | Some slot \<Rightarrow>
             if now - slot_timestamp slot < CACHE_EXPIRATION
             then (slot_price slot, w1)
             else getTokenPrice_miss e w1 mint now)"

section \<open>utils/token-metadata\<close>

definition defaultMetadata :: TokenMetadata where
  "defaultMetadata =
     \<lparr>tm_symbol = ''UNKNOWN'', tm_name = ''Unknown Token'', tm_icon = None, tm_decimals = 9\<rparr>"

definition getTokenMetadata :: "env \<Rightarrow> world \<Rightarrow> string \<Rightarrow> TokenMetadata \<times> world" where
  "getTokenMetadata e w mint =
     (case tokenMetadataCache w mint of
        Some metadata \<Rightarrow> (metadata, w)
      | None \<Rightarrow>
          (case find (\<lambda>r. mr_mint r = mint) (token_metadata w) of
             Some cachedToken \<Rightarrow>
               (let metadata = \<lparr>tm_symbol = mr_symbol cachedToken, tm_name = mr_name cachedToken,
                                 tm_icon = mr_icon cachedToken, tm_decimals = mr_decimals cachedToken\<rparr>
                in (metadata, w\<lparr>tokenMetadataCache := (tokenMetadataCache w)(mint \<mapsto> metadata)\<rparr>))
           | None \<Rightarrow>
               (case token_list_api e mint of
                  None \<Rightarrow> (defaultMetadata, w)
                | Some metadata \<Rightarrow>
                    (let (t, w1) = Date_now e w;
                         w2 = w1\<lparr>token_metadata := token_metadata w1 @
                                [\<lparr>mr_mint = mint, mr_symbol = tm_symbol metadata,
                                  mr_name = tm_name metadata, mr_icon = tm_icon metadata,
                                  mr_decimals = tm_decimals metadata, mr_updated_at = t\<rparr>]\<rparr>;
                         w3 = w2\<lparr>tokenMetadataCache := (tokenMetadataCache w2)(mint \<mapsto> metadata)\<rparr>
                     in (metadata, w3)))))"

section \<open>utils/transaction-parser\<close>

definition PORG_PROGRAM_ID :: string where
  "PORG_PROGRAM_ID = ''Porg111111111111111111111111111111111111111''"

definition WORMHOLE_TOKEN_BRIDGE_ID :: string where
  "WORMHOLE_TOKEN_BRIDGE_ID = ''wormDTUJ6AWPNvk59vGQbDvGJmqbDTdgWgAqcLBCgUb''"

text \<open>
  \<open>instructions.some((instruction) => instruction.programId.toString() === id)\<close>: the
  instructions are visited in order up to the first match; reading \<open>toString\<close> of an
  absent \<open>programId\<close> throws a \<open>TypeError\<close>, as does \<open>some\<close> of absent instructions.
\<close>

fun some_programId :: "string \<Rightarrow> string option list \<Rightarrow> error + bool" where
  "some_programId p [] = Inr False"
| "some_programId p (None # rest) =
     Inl (Error ''Cannot read properties of undefined (reading toString)'')"
| "some_programId p (Some q # rest) = (if q = p then Inr True else some_programId p rest)"

definition instructions_some :: "string \<Rightarrow> ParsedTransactionWithMeta \<Rightarrow> error + bool" where
  "instructions_some p transaction =
     (case message_instructions transaction of
        None \<Rightarrow> Inl (Error ''Cannot read properties of undefined (reading some)'')
      | Some is \<Rightarrow> some_programId p is)"

definition isPorgTransaction :: "ParsedTransactionWithMeta \<Rightarrow> error + bool" where
  "isPorgTransaction transaction = instructions_some PORG_PROGRAM_ID transaction"

record parsed_porg =
  pp_type :: TransactionType
  pp_inputTokens :: "token_leg list option"
  pp_outputToken :: "token_leg option"
  pp_bridgeDetails :: "bridge_leg option"

definition SOL_MINT :: string where
  "SOL_MINT = ''So11111111111111111111111111111111111111112''"

definition USDC_MINT :: string where
  "USDC_MINT = ''EPjFWdd5AufqSSqeM2qN1xzybapC8G4wEGGkZwyTDt1v''"

definition dummy_inputTokens :: "token_leg list" where
  "dummy_inputTokens =
     [\<lparr>leg_mint = SOL_MINT, leg_symbol = ''SOL'', leg_amount = 0.5, leg_valueUsd = 5\<rparr>,
      \<lparr>leg_mint = USDC_MINT, leg_symbol = ''USDC'', leg_amount = 2, leg_valueUsd = 2\<rparr>]"

definition dummy_outputToken :: token_leg where
  "dummy_outputToken =
     \<lparr>leg_mint = USDC_MINT, leg_symbol = ''USDC'', leg_amount = 6.95, leg_valueUsd = 6.95\<rparr>"

definition parsePorgTransaction :: "ParsedTransactionWithMeta \<Rightarrow> error + parsed_porg" where
  "parsePorgTransaction transaction =
     (case instructions_some WORMHOLE_TOKEN_BRIDGE_ID transaction of
        Inl err \<Rightarrow> Inl err
      | Inr isBridge \<Rightarrow>
          if isBridge
          then Inr \<lparr>pp_type = LIQUIDATE_AND_BRIDGE,
                    pp_inputTokens = Some dummy_inputTokens,
                    pp_outputToken = Some dummy_outputToken,
                    pp_bridgeDetails = Some \<lparr>sourceChain = ''solana'', targetChain = ''ethereum'',
                      recipientAddress = ''0x1234567890123456789012345678901234567890''\<rparr>\<rparr>
          else Inr \<lparr>pp_type = LIQUIDATE,
                    pp_inputTokens = Some dummy_inputTokens,
                    pp_outputToken = Some dummy_outputToken,
                    pp_bridgeDetails = None\<rparr>)"

section \<open>services/transaction.service\<close>

text \<open>
  Modelled from the spec: the \<open>upsert\<close> of the persistent store, which is the database
  client's and not code of the backend. The spec has the transaction record upserted with
  the signature as its natural key, and \<open>init.sql\<close> declares \<open>signature\<close> the primary
  key of \<open>transactions\<close>: a row with the signature is replaced where it stands, every
  other row is kept, and without such a row the new row is appended.
\<close>

definition upsert_transaction :: "transaction_row \<Rightarrow> transaction_row list \<Rightarrow> transaction_row list" where
  "upsert_transaction row rows =
     (if list_ex (\<lambda>r. signature r = signature row) rows
      then map (\<lambda>r. if signature r = signature row then row else r) rows
      else rows @ [row])"

definition saveTransactionToDb :: "env \<Rightarrow> world \<Rightarrow> TransactionDetails \<Rightarrow> string \<Rightarrow> world" where
  "saveTransactionToDb e w transaction walletAddress =
     (let (now, w1) = Date_now e w;
          row = \<lparr>signature = tx_id transaction,
                 wallet_address = walletAddress,
                 row_type = tx_type transaction,
                 row_status = tx_status transaction,
                 row_fee = tx_fee transaction,
                 row_timestamp = tx_timestamp transaction,
                 input_tokens = tx_inputTokens transaction,
                 output_token = tx_outputToken transaction,
                 bridge_details = tx_bridgeDetails transaction,
                 created_at = now\<rparr>
      in w1\<lparr>transactions := upsert_transaction row (transactions w1)\<rparr>)"

definition mapDbTransactionToTransactionDetails :: "transaction_row \<Rightarrow> TransactionDetails" where
  "mapDbTransactionToTransactionDetails dbTransaction =
     \<lparr>tx_id = signature dbTransaction,
      tx_type = row_type dbTransaction,
      tx_timestamp = row_timestamp dbTransaction,
      tx_status = row_status dbTransaction,
      tx_fee = row_fee dbTransaction,
      tx_inputTokens = input_tokens dbTransaction,
      tx_outputToken = output_token dbTransaction,
      tx_bridgeDetails = bridge_details dbTransaction\<rparr>"

definition tx_status_of :: "ParsedTransactionWithMeta \<Rightarrow> string" where
  "tx_status_of transaction =
     (case meta transaction of
        None \<Rightarrow> ''confirmed''
      | Some m \<Rightarrow> if meta_err m then ''failed'' else ''confirmed'')"

definition tx_fee_of :: "ParsedTransactionWithMeta \<Rightarrow> nat" where
  "tx_fee_of transaction = (case meta transaction of None \<Rightarrow> 0 | Some m \<Rightarrow> meta_fee m)"

text \<open>
  \<open>getTransactionDetails\<close>: the stored row if there is one; otherwise the transaction is
  fetched from the chain, classified, and stored when it is a Porg transaction. Reading
  \<open>accountKeys[0]\<close> of a message without account keys throws; every throw inside the
  body becomes the one error of the \<open>catch\<close>.
\<close>

definition getTransactionDetails ::
  "env \<Rightarrow> world \<Rightarrow> string \<Rightarrow> (error + TransactionDetails option) \<times> world" where
  "getTransactionDetails e w transactionId =
     (case find (\<lambda>r. signature r = transactionId) (transactions w) of
        Some dbTransaction \<Rightarrow> (Inr (Some (mapDbTransactionToTransactionDetails dbTransaction)), w)
      | None \<Rightarrow>
         (case rpc_getTransaction e transactionId of
            None \<Rightarrow> (Inl (Error ''Failed to get transaction details''), w)
          | Some None \<Rightarrow> (Inr None, w)
          | Some (Some reply) \<Rightarrow>
             (let transaction = as_parsed reply
              in case isPorgTransaction transaction of
                   Inl err \<Rightarrow> (Inl (Error ''Failed to get transaction details''), w)
                 | Inr False \<Rightarrow>
                     (Inr (Some \<lparr>tx_id = transactionId,
                                  tx_type = UNKNOWN,
                                  tx_timestamp = blockTime transaction * 1000,
                                  tx_status = tx_status_of transaction,
                                  tx_fee = tx_fee_of transaction,
                                  tx_inputTokens = None,
                                  tx_outputToken = None,
                                  tx_bridgeDetails = None\<rparr>), w)
                 | Inr True \<Rightarrow>
                     (case parsePorgTransaction transaction of
                        Inl err \<Rightarrow> (Inl (Error ''Failed to get transaction details''), w)
                      | Inr parsedTransaction \<Rightarrow>
                          (let txDetails = \<lparr>tx_id = transactionId,
                                 tx_type = pp_type parsedTransaction,
                                 tx_timestamp = blockTime transaction * 1000,
                                 tx_status = tx_status_of transaction,
                                 tx_fee = tx_fee_of transaction,
                                 tx_inputTokens = pp_inputTokens parsedTransaction,
                                 tx_outputToken = pp_outputToken parsedTransaction,
                                 tx_bridgeDetails = pp_bridgeDetails parsedTransaction\<rparr>
                           in case message_accountKeys transaction of
                                None \<Rightarrow> (Inl (Error ''Failed to get transaction details''), w)
                              | Some [] \<Rightarrow> (Inl (Error ''Failed to get transaction details''), w)
                              | Some (walletAddress # _) \<Rightarrow>
                                  (Inr (Some txDetails),
                                   saveTransactionToDb e w txDetails walletAddress))))))"

section \<open>services/portfolio.service\<close>

definition fiveMinutes :: int where
  "fiveMinutes = 5 * 60 * 1000"

text \<open>
  The cache lookup of \<open>getPortfolio\<close>: the newest \<open>portfolio_cache\<close> row of the wallet,
  served when it is less than five minutes old.
\<close>

definition getPortfolio_cached :: "env \<Rightarrow> world \<Rightarrow> string \<Rightarrow> Portfolio option \<times> world" where
  "getPortfolio_cached e w walletAddress =
     (case latest_by pc_created_at
             (filter (\<lambda>r. pc_wallet_address r = walletAddress) (portfolio_cache w)) of
        None \<Rightarrow> (None, w)
      | Some cachedPortfolio \<Rightarrow>
          (let cacheTime = pc_created_at cachedPortfolio;
               (now, w1) = Date_now e w
           in if now - cacheTime < fiveMinutes
              then (Some \<lparr>totalValue = pc_total_value cachedPortfolio,
                           tokens = pc_tokens cachedPortfolio\<rparr>, w1)
              else (None, w1)))"

text \<open>
  The loop over the token accounts: an account with a positive balance is given its
  metadata and price, valued (\<open>value = price * balance\<close>, rounded), appended to
  \<open>tokens\<close> and added to \<open>totalValue\<close> (\<open>totalValue += value\<close>, rounded).
\<close>

fun processTokenAccounts ::
  "env \<Rightarrow> world \<Rightarrow> parsed_account list \<Rightarrow> TokenInfo list \<Rightarrow> real \<Rightarrow> TokenInfo list \<times> real \<times> world" where
  "processTokenAccounts e w [] tokens' totalValue' = (tokens', totalValue', w)"
| "processTokenAccounts e w (parsedInfo # rest) tokens' totalValue' =
     (if pa_uiAmount parsedInfo > 0
      then (case getTokenMetadata e w (pa_mint parsedInfo) of
              (tokenMetadata, w1) \<Rightarrow>
                (case getTokenPrice e w1 (pa_mint parsedInfo) of
                   (price, w2) \<Rightarrow>
                     processTokenAccounts e w2 rest
                       (tokens' @
                        [\<lparr>ti_symbol = tm_symbol tokenMetadata,
                          ti_name = tm_name tokenMetadata,
                          ti_mint = pa_mint parsedInfo,
                          ti_decimals = pa_decimals parsedInfo,
                          ti_balance = pa_uiAmount parsedInfo,
                          ti_value = fl e (price * pa_uiAmount parsedInfo),
                          ti_percentage = 0,
                          ti_icon = (case tm_icon tokenMetadata of None \<Rightarrow> [] | Some i \<Rightarrow> i)\<rparr>])
                       (fl e (totalValue' + fl e (price * pa_uiAmount parsedInfo)))))
      else processTokenAccounts e w rest tokens' totalValue')"

text \<open>
  The rest of \<open>getPortfolio\<close>: enumerate, value, assign the percentages, sort by value
  (highest first; \<open>Array.prototype.sort\<close> is stable), store the snapshot, return it.
  \<open>new PublicKey\<close> throws on an address that is not a public key, and the RPC request
  may throw; the \<open>catch\<close> turns both into the one error.
\<close>

definition getPortfolio_scan :: "env \<Rightarrow> world \<Rightarrow> string \<Rightarrow> (error + Portfolio) \<times> world" where
  "getPortfolio_scan e w walletAddress =
     (if \<not> isPublicKey walletAddress then (Inl (Error ''Failed to get portfolio''), w)
      else case rpc_tokenAccountsByOwner e walletAddress of
             None \<Rightarrow> (Inl (Error ''Failed to get portfolio''), w)
           | Some tokenAccounts \<Rightarrow>
               (case processTokenAccounts e w tokenAccounts [] 0 of
                  (tokens0, totalValue', w1) \<Rightarrow>
                    (let tokens1 = map (\<lambda>token. token\<lparr>ti_percentage :=
                                         if totalValue' > 0
                                         then fl e (fl e (ti_value token / totalValue') * 100)
                                         else 0\<rparr>)
                                     tokens0;
                         tokens2 = sort_key (\<lambda>token. - ti_value token) tokens1;
                         portfolio = \<lparr>totalValue = totalValue', tokens = tokens2\<rparr>;
                         (now, w2) = Date_now e w1;
                         w3 = w2\<lparr>portfolio_cache := portfolio_cache w2 @
                                [\<lparr>pc_wallet_address = walletAddress, pc_total_value = totalValue',
                                  pc_tokens = tokens2, pc_created_at = now\<rparr>]\<rparr>
                     in (Inr portfolio, w3))))"

definition getPortfolio :: "env \<Rightarrow> world \<Rightarrow> string \<Rightarrow> (error + Portfolio) \<times> world" where
  "getPortfolio e w walletAddress =
     (case getPortfolio_cached e w walletAddress of
        (Some portfolio, w1) \<Rightarrow> (Inr portfolio, w1)
      | (None, w1) \<Rightarrow> getPortfolio_scan e w1 walletAddress)"

section \<open>services/jupiter.service\<close>

text \<open>\<open>x || d\<close> on a number that may be absent: \<open>d\<close> when \<open>x\<close> is absent or zero.\<close>

definition or_default :: "'a::zero option \<Rightarrow> 'a \<Rightarrow> 'a" where
  "or_default x d = (case x of None \<Rightarrow> d | Some v \<Rightarrow> if v = 0 then d else v)"

definition getQuote :: "env \<Rightarrow> JupiterQuoteParams \<Rightarrow> error + JupiterQuoteResponse" where
  "getQuote e params =
     (case jupiter_quote_api e (params\<lparr>qp_slippageBps := Some (or_default (qp_slippageBps params) 50)\<rparr>) of
        None \<Rightarrow> Inl (Error ''Failed to get Jupiter quote'')
      | Some response \<Rightarrow> Inr response)"

definition JUPITER_PROGRAM_ID :: string where
  "JUPITER_PROGRAM_ID = ''JUP6LkbZbjS1jKKwapdHNy74zcZ3tLUZoi5QNyVTaV4''"

definition createSwapTransaction :: "env \<Rightarrow> JupiterSwapParams \<Rightarrow> error + JupiterSwapResponse" where
  "createSwapTransaction e params =
     (case getQuote e \<lparr>qp_inputMint = sp_inputMint params, qp_outputMint = sp_outputMint params,
                        qp_amount = sp_amount params, qp_slippageBps = sp_slippageBps params\<rparr> of
        Inl err \<Rightarrow> Inl (Error ''Failed to create Jupiter swap transaction'')
      | Inr quote \<Rightarrow>
          if \<not> jupiter_swap_api e quote (sp_walletAddress params)
          then Inl (Error ''Failed to create Jupiter swap transaction'')
          else Inr \<lparr>route = quote,
                    sr_instructions = [\<lparr>programId = JUPITER_PROGRAM_ID, keys = [], ix_data = []\<rparr>]\<rparr>)"

definition findTokenAccount :: "env \<Rightarrow> string \<Rightarrow> string \<Rightarrow> error + string" where
  "findTokenAccount e owner mint =
     (case rpc_tokenAccountsByMint e owner mint of
        None \<Rightarrow> Inl (Error ''Failed to find token account'')
      | Some [] \<Rightarrow> Inl (Error ''Failed to find token account'')
      | Some (account # _) \<Rightarrow> Inr account)"

definition getFeeAccount :: "string \<Rightarrow> string" where
  "getFeeAccount tokenMint = ''FeeAccount111111111111111111111111111111111''"

section \<open>utils/program-instructions\<close>

definition TOKEN_PROGRAM_ID :: string where
  "TOKEN_PROGRAM_ID = ''TokenkegQfeZyiNwAJbNbGKPFXCWuBvf9Ss623VQ5DA''"

text \<open>
  \<open>getPorgStateAccount\<close> builds a \<open>PublicKey\<close> from a literal, so it throws when the
  literal is not a key.
\<close>

definition getPorgStateAccount :: "error + string" where
  "getPorgStateAccount = PublicKey ''PorgState11111111111111111111111111111111111''"

text \<open>
  The local \<open>minOutputAmount\<close> of \<open>createPorgBatchLiquidateInstruction\<close>, computed after
  the state account has been obtained.
\<close>

definition minOutputAmount :: "JupiterQuoteResponse list \<Rightarrow> nat" where
  "minOutputAmount jupiterRoutes = foldl (\<lambda>sum route. sum + outAmount route) 0 jupiterRoutes"

definition createPorgBatchLiquidateInstruction ::
  "string \<Rightarrow> string \<Rightarrow> string \<Rightarrow> string \<Rightarrow> bool \<Rightarrow> real \<Rightarrow> JupiterQuoteResponse list \<Rightarrow>
   error + TransactionInstruction" where
  "createPorgBatchLiquidateInstruction user targetTokenAccount feeAccount targetTokenMint
       includeDust' minTokenValueUsd' jupiterRoutes =
     (case getPorgStateAccount of
        Inl err \<Rightarrow> Inl err
      | Inr porgStateAccount \<Rightarrow>
          (let minOutputAmount' = minOutputAmount jupiterRoutes
           in Inr \<lparr>programId = PORG_PROGRAM_ID,
                    keys = [\<lparr>pubkey = porgStateAccount, isSigner = False, isWritable = False\<rparr>,
                            \<lparr>pubkey = user, isSigner = True, isWritable = True\<rparr>,
                            \<lparr>pubkey = targetTokenAccount, isSigner = False, isWritable = True\<rparr>,
                            \<lparr>pubkey = feeAccount, isSigner = False, isWritable = True\<rparr>,
                            \<lparr>pubkey = TOKEN_PROGRAM_ID, isSigner = False, isWritable = False\<rparr>],
                    ix_data = [0]\<rparr>))"

section \<open>services/liquidate.service\<close>

text \<open>
  A web3.js \<open>Transaction\<close>. \<open>createLiquidateTransaction\<close> returns its base64
  serialisation; the model returns the transaction that is serialised, and the
  serialisation is taken to succeed.
\<close>

record Transaction =
  instructions :: "TransactionInstruction list"
  recentBlockhash :: string
  feePayer :: string

text \<open>The filter of \<open>createLiquidateTransaction\<close> (lines 328 to 336).\<close>

definition createLiquidateTransaction_filter :: "LiquidateOptions \<Rightarrow> TokenInfo list \<Rightarrow> TokenInfo list" where
  "createLiquidateTransaction_filter options ts =
     filter (\<lambda>token.
        if ti_mint token = targetToken options then False
        else if \<not> includeDust options \<and> ti_value token < or_default (minTokenValueUsd options) 1.0 then False
        else True) ts"

text \<open>The filter of \<open>simulateLiquidation\<close> (lines 416 to 424).\<close>

definition simulateLiquidation_filter :: "LiquidateOptions \<Rightarrow> TokenInfo list \<Rightarrow> TokenInfo list" where
  "simulateLiquidation_filter options ts =
     filter (\<lambda>token.
        if ti_mint token = targetToken options then False
        else if \<not> includeDust options \<and> ti_value token < or_default (minTokenValueUsd options) 1.0 then False
        else True) ts"

text \<open>The loop of \<open>createLiquidateTransaction\<close> over the tokens; it ends at the first throw.\<close>

fun swapTokens ::
  "env \<Rightarrow> string \<Rightarrow> LiquidateOptions \<Rightarrow> TokenInfo list \<Rightarrow> JupiterQuoteResponse list \<Rightarrow>
   TransactionInstruction list \<Rightarrow> error + JupiterQuoteResponse list \<times> TransactionInstruction list" where
  "swapTokens e walletAddress options [] jupiterRoutes jupiterInstructions =
     Inr (jupiterRoutes, jupiterInstructions)"
| "swapTokens e walletAddress options (token # rest) jupiterRoutes jupiterInstructions =
     (case createSwapTransaction e
             \<lparr>sp_walletAddress = walletAddress,
              sp_inputMint = ti_mint token,
              sp_outputMint = targetToken options,
              sp_amount = ti_balance token * 10 ^ ti_decimals token,
              sp_slippageBps = Some (or_default (lo_slippageBps options) 50)\<rparr> of
        Inl err \<Rightarrow> Inl err
      | Inr swapTransaction \<Rightarrow>
          swapTokens e walletAddress options rest
            (jupiterRoutes @ [route swapTransaction])
            (jupiterInstructions @ sr_instructions swapTransaction))"

text \<open>
  The body of the \<open>try\<close> of \<open>createLiquidateTransaction\<close>, with the error each step
  throws. The message of the error of a failed blockhash request stands for whatever
  web3.js throws there.
\<close>

definition createLiquidateTransaction_try ::
  "env \<Rightarrow> world \<Rightarrow> string \<Rightarrow> LiquidateOptions \<Rightarrow> (error + Transaction) \<times> world" where
  "createLiquidateTransaction_try e w walletAddress options =
     (case PublicKey walletAddress of
        Inl err \<Rightarrow> (Inl err, w)
      | Inr publicKey \<Rightarrow>
       (case getPortfolio e w walletAddress of
          (Inl err, w1) \<Rightarrow> (Inl err, w1)
        | (Inr portfolio, w1) \<Rightarrow>
            (let tokensToLiquidate = createLiquidateTransaction_filter options (tokens portfolio)
             in if length tokensToLiquidate = 0 then (Inl (Error ''No tokens to liquidate''), w1)
                else
                 (case swapTokens e walletAddress options tokensToLiquidate [] [] of
                    Inl err \<Rightarrow> (Inl err, w1)
                  | Inr (jupiterRoutes, jupiterInstructions) \<Rightarrow>
                      (case PublicKey (targetToken options) of
                         Inl err \<Rightarrow> (Inl err, w1)
                       | Inr targetTokenMint \<Rightarrow>
                        (case findTokenAccount e publicKey targetTokenMint of
                           Inl err \<Rightarrow> (Inl err, w1)
                         | Inr targetTokenAccount \<Rightarrow>
                             (let feeAccount = getFeeAccount (targetToken options)
                              in (case createPorgBatchLiquidateInstruction publicKey
                                         targetTokenAccount feeAccount targetTokenMint
                                         (includeDust options)
                                         (or_default (minTokenValueUsd options) 1.0)
                                         jupiterRoutes of
                                    Inl err \<Rightarrow> (Inl err, w1)
                                  | Inr batchLiquidateInstruction \<Rightarrow>
                                     (case rpc_getLatestBlockhash e of
                                        None \<Rightarrow> (Inl (Error ''failed to get recent blockhash''), w1)
                                      | Some blockhash \<Rightarrow>
                                          (Inr \<lparr>instructions =
                                                  jupiterInstructions @ [batchLiquidateInstruction],
                                                recentBlockhash = blockhash,
                                                feePayer = publicKey\<rparr>, w1))))))))))"

definition createLiquidateTransaction ::
  "env \<Rightarrow> world \<Rightarrow> string \<Rightarrow> LiquidateOptions \<Rightarrow> (error + Transaction) \<times> world" where
  "createLiquidateTransaction e w walletAddress options =
     (case createLiquidateTransaction_try e w walletAddress options of
        (Inl err, w') \<Rightarrow> (Inl (Error ''Failed to create liquidation transaction''), w')
      | (Inr serializedTransaction, w') \<Rightarrow> (Inr serializedTransaction, w'))"

text \<open>The loop of \<open>simulateLiquidation\<close> over the tokens, with its three accumulators.\<close>

fun quoteTokens ::
  "env \<Rightarrow> LiquidateOptions \<Rightarrow> TokenInfo list \<Rightarrow> JupiterQuoteResponse list \<Rightarrow> real \<Rightarrow> real \<Rightarrow>
   error + JupiterQuoteResponse list \<times> real \<times> real" where
  "quoteTokens e options [] quotes' totalOutputAmount' totalFees = Inr (quotes', totalOutputAmount', totalFees)"
| "quoteTokens e options (token # rest) quotes' totalOutputAmount' totalFees =
     (case getQuote e
             \<lparr>qp_inputMint = ti_mint token,
              qp_outputMint = targetToken options,
              qp_amount = ti_balance token * 10 ^ ti_decimals token,
              qp_slippageBps = Some (or_default (lo_slippageBps options) 50)\<rparr> of
        Inl err \<Rightarrow> Inl err
      | Inr quote \<Rightarrow>
          quoteTokens e options rest (quotes' @ [quote])
            (totalOutputAmount' + real (outAmount quote) / 10 ^ outputDecimals quote)
            (totalFees + real (feeAmount quote) / 10 ^ outputDecimals quote))"

definition simulateLiquidation ::
  "env \<Rightarrow> world \<Rightarrow> string \<Rightarrow> LiquidateOptions \<Rightarrow> (error + SimulationResult) \<times> world" where
  "simulateLiquidation e w walletAddress options =
     (case getPortfolio e w walletAddress of
        (Inl err, w1) \<Rightarrow> (Inl (Error ''Failed to simulate liquidation''), w1)
      | (Inr portfolio, w1) \<Rightarrow>
          (let tokensToLiquidate = simulateLiquidation_filter options (tokens portfolio);
               totalInputValue' = foldl (\<lambda>sum token. sum + ti_value token) 0 tokensToLiquidate
           in case quoteTokens e options tokensToLiquidate [] 0 0 of
                Inl err \<Rightarrow> (Inl (Error ''Failed to simulate liquidation''), w1)
              | Inr (quotes', totalOutputAmount', totalFees) \<Rightarrow>
                  (let porgFee' = totalOutputAmount' * 0.01;
                       finalOutputAmount' = totalOutputAmount' - porgFee'
                   in (Inr \<lparr>inputTokens = tokensToLiquidate,
                            totalInputValue = totalInputValue',
                            sim_targetToken = targetToken options,
                            totalOutputAmount = totalOutputAmount',
                            jupiterFees = totalFees,
                            porgFee = porgFee',
                            finalOutputAmount = finalOutputAmount',
                            quotes = quotes'\<rparr>, w1))))"

section \<open>A concrete wallet\<close>

text \<open>
  The scenario used to run the definitions: a wallet holding 3 DUST (0.30 USD), 0.5 SOL
  (5 USD), 2 USDC (2 USD) and 1000 BONK (2 USD), enumerated by the chain in that order;
  quotes into USDC of 4.96 for the SOL and 1.99 for the BONK.
\<close>

definition example_wallet :: string where
  "example_wallet = ''4wBqpZM9xaSheZzJSMawUKKwhdpChKbZ5eu5ky4Vigw''"

definition quote_for :: "string \<Rightarrow> nat \<Rightarrow> nat \<Rightarrow> nat \<Rightarrow> JupiterQuoteResponse" where
  "quote_for m inp out thr =
     \<lparr>inputMint = m, outputMint = USDC_MINT, inAmount = inp, outAmount = out,
      otherAmountThreshold = thr, swapMode = ''ExactIn'', slippageBps = 50,
      priceImpactPct = ''0'', contextSlot = 1, timeTaken = 0,
      inputDecimals = 9, outputDecimals = 6, feeAmount = 1000\<rparr>"

text \<open>
  Two replies of the chain: a legacy transaction of three instructions, and a legacy
  message without instructions.
\<close>

definition example_transaction :: TransactionResponse where
  "example_transaction =
     \<lparr>tr_instructions = Some [4, 5, 6],
      tr_accountKeys = Some [example_wallet, ''ata1'', SOL_MINT, USDC_MINT, PORG_PROGRAM_ID,
        WORMHOLE_TOKEN_BRIDGE_ID, TOKEN_PROGRAM_ID],
      tr_blockTime = 1700000000,
      tr_meta = Some \<lparr>meta_err = False, meta_fee = 5000\<rparr>\<rparr>"

definition empty_transaction :: TransactionResponse where
  "empty_transaction =
     \<lparr>tr_instructions = Some [], tr_accountKeys = Some [example_wallet],
      tr_blockTime = 1700000000, tr_meta = None\<rparr>"

definition example_env :: env where
  "example_env =
     \<lparr>clock = (\<lambda>n. 1000000 + int n),
      fl = (\<lambda>x. x),
      rpc_tokenAccountsByOwner = (\<lambda>owner.
         if owner = example_wallet
         then Some [\<lparr>pa_mint = ''DUST'', pa_uiAmount = 3, pa_decimals = 0\<rparr>,
                    \<lparr>pa_mint = SOL_MINT, pa_uiAmount = 0.5, pa_decimals = 9\<rparr>,
                    \<lparr>pa_mint = USDC_MINT, pa_uiAmount = 2, pa_decimals = 6\<rparr>,
                    \<lparr>pa_mint = ''BONK'', pa_uiAmount = 1000, pa_decimals = 5\<rparr>]
         else Some []),
      rpc_tokenAccountsByMint = (\<lambda>owner m. Some [''ata1'']),
      rpc_getLatestBlockhash = Some ''blockhash1'',
      rpc_getTransaction = (\<lambda>s. if s = ''sig1'' then Some (Some example_transaction)
         else if s = ''sig2'' then Some (Some empty_transaction) else Some None),
      price_api = (\<lambda>m.
         if m = SOL_MINT then Some 10
         else if m = USDC_MINT then Some 1
         else if m = ''BONK'' then Some 0.002
         else if m = ''DUST'' then Some 0.1
         else None),
      token_list_api = (\<lambda>m. None),
      jupiter_quote_api = (\<lambda>ps.
         if qp_inputMint ps = SOL_MINT then Some (quote_for SOL_MINT 500000000 4960000 4935200)
         else if qp_inputMint ps = ''BONK'' then Some (quote_for ''BONK'' 100000000 1990000 1980050)
         else if qp_inputMint ps = ''DUST'' then Some (quote_for ''DUST'' 3 290000 288550)
         else None),
      jupiter_swap_api = (\<lambda>q u. True)\<rparr>"

definition empty_world :: world where
  "empty_world =
     \<lparr>ticks = 0, tokenPriceCache = Map.empty, tokenMetadataCache = Map.empty,
      token_metadata = [], token_prices = [], portfolio_cache = [], transactions = [],
      price_api_calls = []\<rparr>"


definition holding :: "string \<Rightarrow> nat \<Rightarrow> real \<Rightarrow> real \<Rightarrow> real \<Rightarrow> TokenInfo" where
  "holding m d b v p =
     \<lparr>ti_symbol = ''UNKNOWN'', ti_name = ''Unknown Token'', ti_mint = m, ti_decimals = d,
      ti_balance = b, ti_value = v, ti_percentage = p, ti_icon = []\<rparr>"

definition example_portfolio :: Portfolio where
  "example_portfolio =
     \<lparr>totalValue = 9.3,
      tokens = [holding SOL_MINT 9 0.5 5 (5000 / 93),
                holding USDC_MINT 6 2 2 (2000 / 93),
                holding ''BONK'' 5 1000 2 (2000 / 93),
                holding ''DUST'' 0 3 0.3 (100 / 31)]\<rparr>"

definition example_options :: LiquidateOptions where
  "example_options =
     \<lparr>targetToken = USDC_MINT, includeDust = False, minTokenValueUsd = Some 1.0,
      lo_slippageBps = None\<rparr>"

text \<open>The same collaborators, with every quoted output amount doubled.\<close>

definition example_env2 :: env where
  "example_env2 =
     example_env\<lparr>jupiter_quote_api :=
       (\<lambda>ps. map_option (\<lambda>q. q\<lparr>outAmount := 2 * outAmount q\<rparr>) (jupiter_quote_api example_env ps))\<rparr>"

text \<open>The same collaborators, with the chain RPC refusing to enumerate token accounts.\<close>

definition example_env_rpc_down :: env where
  "example_env_rpc_down = example_env\<lparr>rpc_tokenAccountsByOwner := (\<lambda>owner. None)\<rparr>"

definition zero_min_options :: LiquidateOptions where
  "zero_min_options =
     \<lparr>targetToken = USDC_MINT, includeDust = False, minTokenValueUsd = Some 0,
      lo_slippageBps = None\<rparr>"

text \<open>Options under which every holding of the wallet is dust.\<close>

definition high_min_options :: LiquidateOptions where
  "high_min_options =
     \<lparr>targetToken = USDC_MINT, includeDust = False, minTokenValueUsd = Some 100,
      lo_slippageBps = None\<rparr>"

text \<open>
  A wallet of two holdings, 20 000 000 000 units and the double nearest to 0.1 unit, each
  at the price 1; the arithmetic is that of doubles.
\<close>

definition whale_env :: env where
  "whale_env =
     example_env\<lparr>fl := binary64,
       rpc_tokenAccountsByOwner := (\<lambda>owner.
         Some [\<lparr>pa_mint = ''WHALE'', pa_uiAmount = 20000000000, pa_decimals = 0\<rparr>,
               \<lparr>pa_mint = ''MITE'', pa_uiAmount = 3602879701896397 / 36028797018963968,
                 pa_decimals = 9\<rparr>]),
       price_api := (\<lambda>m. Some 1)\<rparr>"

text \<open>A store that already holds the record of another signature.\<close>

definition other_row :: transaction_row where
  "other_row =
     \<lparr>signature = ''sig0'', wallet_address = ''wallet0'', row_type = LIQUIDATE_AND_BRIDGE,
      row_status = ''confirmed'', row_fee = 5000, row_timestamp = 1600000000000,
      input_tokens = None, output_token = None, bridge_details = None, created_at = 1\<rparr>"

definition stored_world :: world where
  "stored_world = empty_world\<lparr>transactions := [other_row]\<rparr>"

definition stale_world :: world where
  "stale_world =
     empty_world\<lparr>tokenPriceCache := [''XYZ'' \<mapsto> \<lparr>slot_price = 2.5, slot_timestamp = 0\<rparr>]\<rparr>"

definition fresh_world :: world where
  "fresh_world =
     empty_world\<lparr>token_prices := [\<lparr>pr_mint = SOL_MINT, pr_price = 9, pr_updated_at = 900000\<rparr>]\<rparr>"

section \<open>Public keys\<close>

lemma bytes_of_0: "bytes_of 0 = []"
  by (simp add: bytes_of.simps)

lemma bytes_of_pos: "n \<noteq> 0 \<Longrightarrow> bytes_of n = bytes_of (n div 256) @ [n mod 256]"
  by (subst bytes_of.simps) simp

lemmas key_eval = isPublicKey_def bs58_decode_def base58_alphabet_def bytes_of_0 bytes_of_pos

text \<open>
  The literals from which the backend builds keys at a fixed place decode to 32 bytes,
  but for the state account of \<open>getPorgStateAccount\<close>, which decodes to 33.
\<close>

lemma literal_keys:
  "isPublicKey PORG_PROGRAM_ID"
  "isPublicKey TOKEN_PROGRAM_ID"
  "isPublicKey JUPITER_PROGRAM_ID"
  "isPublicKey (getFeeAccount tokenMint)"
  by (simp_all add: key_eval PORG_PROGRAM_ID_def TOKEN_PROGRAM_ID_def JUPITER_PROGRAM_ID_def
        getFeeAccount_def)

lemma PorgState_not_key:
  "\<not> isPublicKey ''PorgState11111111111111111111111111111111111''"
  by (simp add: key_eval)

lemma PorgState_decoded_length:
  "map_option length (bs58_decode ''PorgState11111111111111111111111111111111111'') = Some 33"
  by (simp add: key_eval)

lemma getPorgStateAccount_throws:
  "getPorgStateAccount = Inl (Error ''Invalid public key input'')"
  by (simp add: getPorgStateAccount_def PublicKey_def PorgState_not_key)

lemma example_wallet_key: "isPublicKey example_wallet"
  by (simp add: key_eval example_wallet_def)

lemma USDC_MINT_key: "isPublicKey USDC_MINT"
  by (simp add: key_eval USDC_MINT_def)

section \<open>Transaction classifier and transaction store\<close>








lemma parsePorgTransaction_type:
  "parsePorgTransaction transaction = Inr parsed \<Longrightarrow>
   pp_type parsed = LIQUIDATE_AND_BRIDGE \<or> pp_type parsed = LIQUIDATE"
  by (auto simp: parsePorgTransaction_def split: sum.splits if_splits)

text \<open>
  On a reply of \<open>getTransaction\<close> the search for a program id ends without a match when
  the message has no instruction, and throws otherwise: a compiled instruction has no
  \<open>programId\<close>.
\<close>

lemma instructions_some_reply:
  "instructions_some p (as_parsed reply) =
     (case tr_instructions reply of
        None \<Rightarrow> Inl (Error ''Cannot read properties of undefined (reading some)'')
      | Some [] \<Rightarrow> Inr False
      | Some (i # is) \<Rightarrow> Inl (Error ''Cannot read properties of undefined (reading toString)''))"
  by (simp add: instructions_some_def as_parsed_def split: option.splits list.splits)

lemma isPorgTransaction_reply:
  "isPorgTransaction (as_parsed reply) \<noteq> Inr True"
  by (simp add: isPorgTransaction_def instructions_some_reply split: option.splits list.splits)

text \<open>So \<open>getTransactionDetails\<close> stores nothing, and asked again answers the same.\<close>

lemma getTransactionDetails_world:
  "snd (getTransactionDetails e w transactionId) = w"
  using isPorgTransaction_reply
  by (auto simp: getTransactionDetails_def Let_def split: option.splits sum.splits bool.splits)

text \<open>
  C10. The type of a transaction returned by the classifier is \<open>liquidate\<close>,
  \<open>liquidate_and_bridge\<close> or \<open>unknown\<close>, never \<open>bridge\<close>. The classifier answers from the
  stored row when the signature is stored, so the statement covers every store whose
  row for the signature, if there is one, is not of type \<open>bridge\<close>; that includes every
  store without a row for it, where the transaction is classified from the chain.
\<close>

theorem classification_type_range:
  assumes "\<forall>r\<in>set (transactions w). signature r = transactionId \<longrightarrow> row_type r \<noteq> BRIDGE"
      and "getTransactionDetails e w transactionId = (Inr (Some d), w')"
  shows "tx_type d \<in> {LIQUIDATE, LIQUIDATE_AND_BRIDGE, UNKNOWN} \<and> tx_type d \<noteq> BRIDGE"
proof (cases "find (\<lambda>r. signature r = transactionId) (transactions w)")
  case (Some r)
  then have "r \<in> set (transactions w) \<and> signature r = transactionId"
    by (auto simp: find_Some_iff)
  with assms(1) have "row_type r \<noteq> BRIDGE" by blast
  moreover from assms(2) Some have "d = mapDbTransactionToTransactionDetails r"
    by (simp add: getTransactionDetails_def)
  ultimately show ?thesis
    by (cases "row_type r") (simp_all add: mapDbTransactionToTransactionDetails_def)
next
  case None
  have "\<And>t p. parsePorgTransaction t = Inr p \<Longrightarrow> pp_type p \<noteq> BRIDGE \<and> pp_type p \<noteq> UNKNOWN"
    using parsePorgTransaction_type by fastforce
  with assms(2) None show ?thesis
    by (cases "tx_type d")
       (auto simp: getTransactionDetails_def Let_def
             split: option.splits if_splits list.splits sum.splits bool.splits)
qed

theorem classification_type_range_witness:
  "map row_type (transactions stored_world) = [LIQUIDATE_AND_BRIDGE]
   \<and> (\<exists>d w'. getTransactionDetails example_env stored_world ''sig0'' = (Inr (Some d), w')
         \<and> tx_type d = LIQUIDATE_AND_BRIDGE \<and> tx_type d \<noteq> BRIDGE)
   \<and> (\<exists>d w'. getTransactionDetails example_env stored_world ''sig2'' = (Inr (Some d), w')
         \<and> tx_type d = UNKNOWN \<and> tx_type d \<noteq> BRIDGE)"
proof -
  have h: "\<forall>r\<in>set (transactions stored_world). signature r = s \<longrightarrow> row_type r \<noteq> BRIDGE" for s
    by (simp add: stored_world_def empty_world_def other_row_def)
  obtain d w' where g: "getTransactionDetails example_env stored_world ''sig0'' = (Inr (Some d), w')"
    and t: "tx_type d = LIQUIDATE_AND_BRIDGE"
    by (simp add: getTransactionDetails_def stored_world_def empty_world_def other_row_def
          mapDbTransactionToTransactionDetails_def)
  obtain d2 w2 where g2: "getTransactionDetails example_env stored_world ''sig2'' = (Inr (Some d2), w2)"
    and t2: "tx_type d2 = UNKNOWN"
    by (simp add: getTransactionDetails_def stored_world_def empty_world_def other_row_def
          example_env_def empty_transaction_def isPorgTransaction_def instructions_some_def
          as_parsed_def Let_def)
  from classification_type_range [OF h g] have n: "tx_type d \<noteq> BRIDGE" by simp
  from classification_type_range [OF h g2] have n2: "tx_type d2 \<noteq> BRIDGE" by simp
  have m: "map row_type (transactions stored_world) = [LIQUIDATE_AND_BRIDGE]"
    by (simp add: stored_world_def empty_world_def other_row_def)
  from g t n g2 t2 n2 m show ?thesis by blast
qed

text \<open>The legacy transaction of three instructions is not classified: the search throws.\<close>

lemma getTransactionDetails_example:
  "fst (getTransactionDetails example_env empty_world ''sig1'')
     = Inl (Error ''Failed to get transaction details'')"
  by (simp add: getTransactionDetails_def empty_world_def example_env_def example_transaction_def
        isPorgTransaction_def instructions_some_def as_parsed_def Let_def)

section \<open>Price resolver\<close>

lemma latest_by_None: "latest_by t rs = None \<longleftrightarrow> rs = []"
  by (induction rs) (auto split: option.splits)

lemma latest_by_Some:
  "latest_by t rs = Some r \<Longrightarrow> r \<in> set rs \<and> (\<forall>r'\<in>set rs. t r' \<le> t r)"
proof (induction rs arbitrary: r)
  case Nil
  then show ?case by simp
next
  case (Cons a rs)
  show ?case
  proof (cases "latest_by t rs")
    case None
    then have "rs = []" by (simp add: latest_by_None)
    with Cons.prems show ?thesis by simp
  next
    case (Some b)
    from Cons.IH [OF Some] have b: "b \<in> set rs" "\<forall>r'\<in>set rs. t r' \<le> t b" by auto
    show ?thesis
    proof (cases "t a < t b")
      case True
      with Cons.prems Some have "r = b" by simp
      with b True show ?thesis by auto
    next
      case False
      with Cons.prems Some have "r = a" by simp
      with b False show ?thesis by fastforce
    qed
  qed
qed

lemma price_api_calls_fetch:
  "price_api_calls (snd (getTokenPrice_fetch e w mint now)) = price_api_calls w @ [mint]"
  by (simp add: getTokenPrice_fetch_def Date_now_def Let_def split: option.splits)

lemma fetch_None:
  "price_api e mint = None \<Longrightarrow>
   getTokenPrice_fetch e w mint now = (None, w\<lparr>price_api_calls := price_api_calls w @ [mint]\<rparr>)"
  by (simp add: getTokenPrice_fetch_def)

lemma try_cases:
  "getTokenPrice_try e w mint now = getTokenPrice_fetch e w mint now \<or>
   price_api_calls (snd (getTokenPrice_try e w mint now)) = price_api_calls w"
  by (simp add: getTokenPrice_try_def split: option.splits)

lemma miss_fallback:
  assumes "getTokenPrice_miss e w mint now = (p, w')"
      and "price_api_calls w' = price_api_calls w @ [mint]"
      and "price_api e mint = None"
  shows "p = (case tokenPriceCache w mint of Some slot \<Rightarrow> slot_price slot | None \<Rightarrow> 1)
       \<and> tokenPriceCache w' = tokenPriceCache w"
proof -
  from try_cases [of e w mint now] show ?thesis
  proof
    assume "getTokenPrice_try e w mint now = getTokenPrice_fetch e w mint now"
    with assms(3) have "getTokenPrice_try e w mint now = (None, w\<lparr>price_api_calls := price_api_calls w @ [mint]\<rparr>)"
      by (simp add: fetch_None)
    with assms(1) show ?thesis
      by (auto simp: getTokenPrice_miss_def split: option.splits)
  next
    assume a: "price_api_calls (snd (getTokenPrice_try e w mint now)) = price_api_calls w"
    from assms(1) have "w' = snd (getTokenPrice_try e w mint now)"
      by (auto simp: getTokenPrice_miss_def split: option.splits prod.splits)
    with a assms(2) show ?thesis by simp
  qed
qed

text \<open>
  C5. When a lookup reaches the price API (the request is recorded in the trace) and the
  request fails, the price returned is the price of the in-memory entry for the token,
  whatever its age, and 1.0 when there is no in-memory entry; the in-memory cache is left
  as it was. \<open>getTokenPrice\<close> returns a price in every case: its only \<open>try\<close> has a
  \<open>catch\<close> that returns.
\<close>

theorem getTokenPrice_origin_failure:
  assumes "getTokenPrice e w mint = (p, w')"
      and "price_api_calls w' = price_api_calls w @ [mint]"
      and "price_api e mint = None"
  shows "p = (case tokenPriceCache w mint of Some slot \<Rightarrow> slot_price slot | None \<Rightarrow> 1)
       \<and> tokenPriceCache w' = tokenPriceCache w"
proof -
  let ?w1 = "w\<lparr>ticks := Suc (ticks w)\<rparr>"
  let ?now = "clock e (ticks w)"
  have c: "price_api_calls ?w1 = price_api_calls w" "tokenPriceCache ?w1 = tokenPriceCache w" by simp_all
  have "getTokenPrice_miss e ?w1 mint ?now = (p, w')"
    using assms(1,2)
    by (auto simp: getTokenPrice_def Date_now_def split: option.splits if_splits)
  from miss_fallback [OF this _ assms(3)] assms(2) c show ?thesis by simp
qed

theorem getTokenPrice_origin_failure_witness:
  "price_api example_env ''XYZ'' = None
   \<and> (\<exists>p w'. getTokenPrice example_env stale_world ''XYZ'' = (p, w')
         \<and> price_api_calls w' = price_api_calls stale_world @ [''XYZ''] \<and> p = 2.5)"
proof -
  have f: "price_api example_env ''XYZ'' = None"
    by (simp add: example_env_def SOL_MINT_def USDC_MINT_def)
  obtain p w' where g: "getTokenPrice example_env stale_world ''XYZ'' = (p, w')"
    by (cases "getTokenPrice example_env stale_world ''XYZ''") blast
  have c: "price_api_calls (snd (getTokenPrice example_env stale_world ''XYZ''))
             = price_api_calls stale_world @ [''XYZ'']"
    by (simp add: getTokenPrice_def getTokenPrice_miss_def getTokenPrice_try_def
          getTokenPrice_fetch_def Date_now_def stale_world_def empty_world_def f
          example_env_def CACHE_EXPIRATION_def)
  with g have c': "price_api_calls w' = price_api_calls stale_world @ [''XYZ'']" by simp
  from getTokenPrice_origin_failure [OF g c' f] have "p = 2.5"
    by (simp add: stale_world_def)
  with f g c' show ?thesis by blast
qed

lemma try_calls:
  "price_api_calls (snd (getTokenPrice_try e w mint now)) =
     (if \<exists>r\<in>set (token_prices w). pr_mint r = mint \<and> now - pr_updated_at r < CACHE_EXPIRATION
      then price_api_calls w else price_api_calls w @ [mint])"
proof (cases "latest_by pr_updated_at (filter (\<lambda>r. pr_mint r = mint) (token_prices w))")
  case None
  then have "filter (\<lambda>r. pr_mint r = mint) (token_prices w) = []" by (simp add: latest_by_None)
  then have "\<not> (\<exists>r\<in>set (token_prices w). pr_mint r = mint \<and> now - pr_updated_at r < CACHE_EXPIRATION)"
    by (auto simp: filter_empty_conv)
  with None show ?thesis by (simp add: getTokenPrice_try_def price_api_calls_fetch)
next
  case (Some c)
  from latest_by_Some [OF Some]
  have c: "c \<in> set (token_prices w)" "pr_mint c = mint"
    and m: "\<forall>r\<in>set (token_prices w). pr_mint r = mint \<longrightarrow> pr_updated_at r \<le> pr_updated_at c"
    by auto
  show ?thesis
  proof (cases "now - pr_updated_at c < CACHE_EXPIRATION")
    case True
    with c have "\<exists>r\<in>set (token_prices w). pr_mint r = mint \<and> now - pr_updated_at r < CACHE_EXPIRATION"
      by blast
    with True Some show ?thesis by (simp add: getTokenPrice_try_def)
  next
    case False
    have "\<not> (\<exists>r\<in>set (token_prices w). pr_mint r = mint \<and> now - pr_updated_at r < CACHE_EXPIRATION)"
    proof
      assume "\<exists>r\<in>set (token_prices w). pr_mint r = mint \<and> now - pr_updated_at r < CACHE_EXPIRATION"
      then obtain r where r: "r \<in> set (token_prices w)" "pr_mint r = mint" "now - pr_updated_at r < CACHE_EXPIRATION"
        by blast
      with m have "pr_updated_at r \<le> pr_updated_at c" by blast
      with r(3) False show False by linarith
    qed
    with False Some show ?thesis by (simp add: getTokenPrice_try_def price_api_calls_fetch)
  qed
qed

lemma miss_calls:
  "price_api_calls (snd (getTokenPrice_miss e w mint now)) = price_api_calls (snd (getTokenPrice_try e w mint now))"
  by (simp add: getTokenPrice_miss_def split: prod.splits option.splits)

text \<open>
  C6. The freshness window is 5 minutes. A lookup sends no request to the price API when
  the in-memory entry of the token, or some row of the token in \<open>token_prices\<close>, is
  younger than the window at the time the lookup reads the clock; otherwise (no entry, or
  every entry at least as old as the window) it sends exactly one request, for that
  token.
\<close>

theorem getTokenPrice_origin_iff_no_fresh_entry:
  "CACHE_EXPIRATION = 5 * 60 * 1000 \<and>
   price_api_calls (snd (getTokenPrice e w mint)) =
     (if (\<exists>slot. tokenPriceCache w mint = Some slot
             \<and> clock e (ticks w) - slot_timestamp slot < CACHE_EXPIRATION)
        \<or> (\<exists>r\<in>set (token_prices w). pr_mint r = mint
             \<and> clock e (ticks w) - pr_updated_at r < CACHE_EXPIRATION)
      then price_api_calls w
      else price_api_calls w @ [mint])"
proof -
  let ?w1 = "w\<lparr>ticks := Suc (ticks w)\<rparr>"
  let ?now = "clock e (ticks w)"
  have t: "price_api_calls (snd (getTokenPrice_miss e ?w1 mint ?now)) =
     (if \<exists>r\<in>set (token_prices w). pr_mint r = mint \<and> ?now - pr_updated_at r < CACHE_EXPIRATION
      then price_api_calls w else price_api_calls w @ [mint])"
    unfolding miss_calls try_calls by simp
  show ?thesis
  proof (cases "tokenPriceCache w mint")
    case None
    then show ?thesis using t
      by (simp add: getTokenPrice_def Date_now_def CACHE_EXPIRATION_def)
  next
    case (Some slot)
    then show ?thesis using t
      by (simp add: getTokenPrice_def Date_now_def CACHE_EXPIRATION_def)
  qed
qed

theorem getTokenPrice_origin_iff_no_fresh_entry_witness:
  "price_api_calls (snd (getTokenPrice example_env fresh_world SOL_MINT)) = []
   \<and> price_api_calls (snd (getTokenPrice example_env stale_world ''XYZ'')) = [''XYZ'']"
  using getTokenPrice_origin_iff_no_fresh_entry [of example_env fresh_world SOL_MINT]
        getTokenPrice_origin_iff_no_fresh_entry [of example_env stale_world "''XYZ''"]
  by (simp add: fresh_world_def stale_world_def empty_world_def example_env_def
        CACHE_EXPIRATION_def)

section \<open>Portfolio valuator\<close>

lemma sum_list_sort_key:
  fixes f :: "'a \<Rightarrow> real"
  shows "sum_list (map f (sort_key k xs)) = sum_list (map f xs)"
proof -
  have "sum_list (map f (sort_key k xs)) = sum_mset (image_mset f (mset (sort_key k xs)))"
    by (simp only: sum_mset_sum_list [symmetric] mset_map)
  also have "\<dots> = sum_mset (image_mset f (mset xs))" by simp
  also have "\<dots> = sum_list (map f xs)"
    by (simp only: sum_mset_sum_list [symmetric] mset_map)
  finally show ?thesis .
qed

lemma getPortfolio_example:
  "fst (getPortfolio example_env empty_world example_wallet) = Inr example_portfolio"
  by (simp add: example_wallet_key getPortfolio_def getPortfolio_cached_def getPortfolio_scan_def empty_world_def example_env_def
     getTokenMetadata_def getTokenPrice_def getTokenPrice_miss_def getTokenPrice_try_def getTokenPrice_fetch_def
     Date_now_def defaultMetadata_def upsert_token_price_def SOL_MINT_def USDC_MINT_def CACHE_EXPIRATION_def Let_def
     example_portfolio_def holding_def)

lemma getPortfolio_cached_example:
  "fst (getPortfolio_cached example_env empty_world example_wallet) = None"
  by (simp add: getPortfolio_cached_def empty_world_def)

section \<open>Simulation engine\<close>

lemma quoteTokens_sum:
  "quoteTokens e options ts qs out fees = Inr (qs', out', fees') \<Longrightarrow>
   out' - (\<Sum>q\<leftarrow>qs'. real (outAmount q) / 10 ^ outputDecimals q)
     = out - (\<Sum>q\<leftarrow>qs. real (outAmount q) / 10 ^ outputDecimals q)
   \<and> length qs' = length qs + length ts"
proof (induction ts arbitrary: qs out fees)
  case Nil
  then show ?case by simp
next
  case (Cons t ts)
  let ?ps = "\<lparr>qp_inputMint = ti_mint t, qp_outputMint = targetToken options,
               qp_amount = ti_balance t * 10 ^ ti_decimals t,
               qp_slippageBps = Some (or_default (lo_slippageBps options) 50)\<rparr>"
  from Cons.prems obtain quote where q: "getQuote e ?ps = Inr quote"
    by (cases "getQuote e ?ps") simp_all
  with Cons.prems
  have "quoteTokens e options ts (qs @ [quote])
          (out + real (outAmount quote) / 10 ^ outputDecimals quote)
          (fees + real (feeAmount quote) / 10 ^ outputDecimals quote) = Inr (qs', out', fees')"
    by simp
  from Cons.IH [OF this] show ?case by simp
qed

lemma simulateLiquidation_result:
  assumes "simulateLiquidation e w walletAddress options = (Inr r, w')"
  obtains p :: Portfolio and qs out fees where
    "getPortfolio e w walletAddress = (Inr p, w')"
    "quoteTokens e options (simulateLiquidation_filter options (tokens p)) [] 0 0 = Inr (qs, out, fees)"
    "inputTokens r = simulateLiquidation_filter options (tokens p)"
    "quotes r = qs" "totalOutputAmount r = out"
    "porgFee r = out * 0.01" "finalOutputAmount r = out - out * 0.01"
proof -
  obtain res w1 where g: "getPortfolio e w walletAddress = (res, w1)"
    by (cases "getPortfolio e w walletAddress")
  from assms g obtain p where p: "res = Inr p"
    by (cases res) (simp_all add: simulateLiquidation_def)
  let ?ts = "simulateLiquidation_filter options (tokens p)"
  from assms g p obtain qs out fees where q: "quoteTokens e options ?ts [] 0 0 = Inr (qs, out, fees)"
    by (cases "quoteTokens e options ?ts [] 0 0") (auto simp: simulateLiquidation_def Let_def)
  from assms g p q have "w' = w1" and
    "r = \<lparr>inputTokens = ?ts,
          totalInputValue = foldl (\<lambda>sum token. sum + ti_value token) 0 ?ts,
          sim_targetToken = targetToken options,
          totalOutputAmount = out, jupiterFees = fees, porgFee = out * 0.01,
          finalOutputAmount = out - out * 0.01, quotes = qs\<rparr>"
    by (auto simp: simulateLiquidation_def Let_def)
  with g p q that show thesis by simp
qed

text \<open>
  C2. In every result of \<open>simulateLiquidation\<close> the gross output is the sum over the
  quotes (one per selected holding) of \<open>outAmount\<close> divided by ten to the quote's
  \<open>outputDecimals\<close>, the Porg fee is the gross output times 1 per cent, and the final
  output is the gross output minus the fee. With a gross output of 6.95 the fee is 0.0695
  and the final output 6.8805, each within 1e-6.
\<close>

theorem simulateLiquidation_fee_arithmetic:
  assumes "simulateLiquidation e w walletAddress options = (Inr r, w')"
  shows "totalOutputAmount r = (\<Sum>q\<leftarrow>quotes r. real (outAmount q) / 10 ^ outputDecimals q)
       \<and> length (quotes r) = length (inputTokens r)
       \<and> porgFee r = totalOutputAmount r * (1 / 100)
       \<and> finalOutputAmount r = totalOutputAmount r - porgFee r
       \<and> (totalOutputAmount r = 6.95 \<longrightarrow>
            \<bar>porgFee r - 0.0695\<bar> \<le> 1 / 10 ^ 6 \<and> \<bar>finalOutputAmount r - 6.8805\<bar> \<le> 1 / 10 ^ 6)"
proof -
  from assms obtain p :: Portfolio and qs out fees where
    "getPortfolio e w walletAddress = (Inr p, w')" and
    q: "quoteTokens e options (simulateLiquidation_filter options (tokens p)) [] 0 0 = Inr (qs, out, fees)"
    and r: "inputTokens r = simulateLiquidation_filter options (tokens p)"
      "quotes r = qs" "totalOutputAmount r = out"
      "porgFee r = out * 0.01" "finalOutputAmount r = out - out * 0.01"
    by (rule simulateLiquidation_result)
  from quoteTokens_sum [OF q] r show ?thesis by simp
qed

lemma simulateLiquidation_example:
  "fst (simulateLiquidation example_env empty_world example_wallet example_options) =
     Inr \<lparr>inputTokens = [holding SOL_MINT 9 0.5 5 (5000 / 93), holding ''BONK'' 5 1000 2 (2000 / 93)],
          totalInputValue = 7,
          sim_targetToken = USDC_MINT,
          totalOutputAmount = 6.95,
          jupiterFees = 0.002,
          porgFee = 0.0695,
          finalOutputAmount = 6.8805,
          quotes = [quote_for SOL_MINT 500000000 4960000 4935200,
                    quote_for ''BONK'' 100000000 1990000 1980050]\<rparr>"
proof -
  obtain w' where g: "getPortfolio example_env empty_world example_wallet = (Inr example_portfolio, w')"
    using getPortfolio_example by (cases "getPortfolio example_env empty_world example_wallet") simp
  show ?thesis
    unfolding simulateLiquidation_def g
    by (simp add: simulateLiquidation_filter_def example_portfolio_def
          example_options_def holding_def or_default_def getQuote_def example_env_def quote_for_def
          SOL_MINT_def USDC_MINT_def Let_def)
qed

theorem simulateLiquidation_fee_arithmetic_witness:
  "\<exists>r w'. simulateLiquidation example_env empty_world example_wallet example_options = (Inr r, w')
     \<and> map ti_value (inputTokens r) = [5, 2]
     \<and> totalOutputAmount r = 6.95 \<and> porgFee r = 0.0695 \<and> finalOutputAmount r = 6.8805
     \<and> \<bar>porgFee r - 0.0695\<bar> \<le> 1 / 10 ^ 6 \<and> \<bar>finalOutputAmount r - 6.8805\<bar> \<le> 1 / 10 ^ 6"
proof -
  obtain r w' where s: "simulateLiquidation example_env empty_world example_wallet example_options = (Inr r, w')"
    and v: "map ti_value (inputTokens r) = [5, 2]" and t: "totalOutputAmount r = 6.95"
    using simulateLiquidation_example
    by (cases "simulateLiquidation example_env empty_world example_wallet example_options")
       (simp add: holding_def)
  from simulateLiquidation_fee_arithmetic [OF s] t
  have "porgFee r = 0.0695 \<and> finalOutputAmount r = 6.8805
     \<and> \<bar>porgFee r - 0.0695\<bar> \<le> 1 / 10 ^ 6 \<and> \<bar>finalOutputAmount r - 6.8805\<bar> \<le> 1 / 10 ^ 6"
    by simp
  with s v t show ?thesis by (intro exI [of _ r] exI [of _ w']) simp
qed

section \<open>Liquidation planner\<close>

lemma filter_rule:
  "filter (\<lambda>token.
        if ti_mint token = targetToken options then False
        else if \<not> includeDust options \<and> ti_value token < or_default (minTokenValueUsd options) 1.0 then False
        else True) ts =
   filter (\<lambda>token. ti_mint token \<noteq> targetToken options
       \<and> (includeDust options
            \<or> \<not> ti_value token < (case minTokenValueUsd options of
                                      None \<Rightarrow> 1 | Some v \<Rightarrow> if v = 0 then 1 else v))) ts"
  by (rule filter_cong) (auto simp: or_default_def split: option.splits)

text \<open>
  What both filters select: in order, the holdings that are not the target token and,
  when \<open>includeDust\<close> is false, whose value is not below the effective minimum, which
  is \<open>minTokenValueUsd\<close> when that is given and not zero, and 1.0 when it is absent or
  zero. With \<open>includeDust\<close> true every holding other than the target token is selected.
\<close>

lemma selection_rule:
  "createLiquidateTransaction_filter options ts =
     filter (\<lambda>token. ti_mint token \<noteq> targetToken options
       \<and> (includeDust options
            \<or> \<not> ti_value token < (case minTokenValueUsd options of
                                      None \<Rightarrow> 1 | Some v \<Rightarrow> if v = 0 then 1 else v))) ts
   \<and> simulateLiquidation_filter options ts =
     filter (\<lambda>token. ti_mint token \<noteq> targetToken options
       \<and> (includeDust options
            \<or> \<not> ti_value token < (case minTokenValueUsd options of
                                      None \<Rightarrow> 1 | Some v \<Rightarrow> if v = 0 then 1 else v))) ts"
  unfolding createLiquidateTransaction_filter_def simulateLiquidation_filter_def filter_rule
  by simp

text \<open>
  The scenario of the wallet: the target USDC is never selected; the DUST holding (0.30)
  is selected only with \<open>includeDust\<close>; a holding worth 0.50 under a minimum of 1.0 is
  excluded without \<open>includeDust\<close> and included with it.
\<close>

lemma selection_rule_example:
  "createLiquidateTransaction_filter example_options (tokens example_portfolio)
     = [holding SOL_MINT 9 0.5 5 (5000 / 93), holding ''BONK'' 5 1000 2 (2000 / 93)]
   \<and> createLiquidateTransaction_filter (example_options\<lparr>includeDust := True\<rparr>) (tokens example_portfolio)
     = [holding SOL_MINT 9 0.5 5 (5000 / 93), holding ''BONK'' 5 1000 2 (2000 / 93),
        holding ''DUST'' 0 3 0.3 (100 / 31)]
   \<and> createLiquidateTransaction_filter example_options [holding ''HALF'' 0 5 0.5 100] = []
   \<and> createLiquidateTransaction_filter (example_options\<lparr>includeDust := True\<rparr>)
        [holding ''HALF'' 0 5 0.5 100] = [holding ''HALF'' 0 5 0.5 100]
   \<and> simulateLiquidation_filter example_options [holding ''HALF'' 0 5 0.5 100] = []
   \<and> simulateLiquidation_filter (example_options\<lparr>includeDust := True\<rparr>)
        [holding ''HALF'' 0 5 0.5 100] = [holding ''HALF'' 0 5 0.5 100]"
  using selection_rule [of example_options "tokens example_portfolio"]
        selection_rule [of "example_options\<lparr>includeDust := True\<rparr>" "tokens example_portfolio"]
        selection_rule [of example_options "[holding ''HALF'' 0 5 0.5 100]"]
        selection_rule [of "example_options\<lparr>includeDust := True\<rparr>" "[holding ''HALF'' 0 5 0.5 100]"]
  by (simp add: example_options_def example_portfolio_def holding_def SOL_MINT_def USDC_MINT_def)

text \<open>
  C3. The selection is to exclude, without \<open>includeDust\<close>, exactly the holdings whose
  value is below \<open>minTokenValueUsd\<close>. With \<open>minTokenValueUsd = 0\<close> and
  \<open>includeDust = false\<close> a holding worth 0.50 is not below the minimum, so that rule
  keeps it; both filters drop it, because \<open>0 || 1.0\<close> is \<open>1.0\<close>.
\<close>

theorem selection_zero_minimum:
  "minTokenValueUsd zero_min_options = Some 0
   \<and> includeDust zero_min_options = False
   \<and> createLiquidateTransaction_filter zero_min_options [holding ''HALF'' 0 5 0.5 100] = []
   \<and> simulateLiquidation_filter zero_min_options [holding ''HALF'' 0 5 0.5 100] = []
   \<and> filter (\<lambda>token. ti_mint token \<noteq> targetToken zero_min_options \<and> \<not> ti_value token < 0)
        [holding ''HALF'' 0 5 0.5 100] = [holding ''HALF'' 0 5 0.5 100]"
  by (simp add: zero_min_options_def createLiquidateTransaction_filter_def
        simulateLiquidation_filter_def or_default_def holding_def USDC_MINT_def)

lemma foldl_add_sum_list:
  "foldl (\<lambda>sum route. sum + f route) (a::nat) xs = a + sum_list (map f xs)"
  by (induction xs arbitrary: a) simp_all

lemma createPorgBatchLiquidateInstruction_throws:
  "createPorgBatchLiquidateInstruction user targetTokenAccount feeAccount targetTokenMint
      dust minValue jupiterRoutes = Inl (Error ''Invalid public key input'')"
  by (simp add: createPorgBatchLiquidateInstruction_def getPorgStateAccount_throws)

text \<open>
  C7. No instruction is assembled for any list of quotes: \<open>createPorgBatchLiquidateInstruction\<close>
  first awaits \<open>getPorgStateAccount\<close>, whose literal decodes to 33 bytes, so it throws
  \<open>Invalid public key input\<close> before anything is computed from the quotes. The
  \<open>minOutputAmount\<close> it would compute next is the sum of the quotes' \<open>outAmount\<close>, the
  expected output, and not the sum of their \<open>otherAmountThreshold\<close>, the minimum output:
  for the two quotes of the wallet 6950000, where the thresholds sum to 6915250.
\<close>

theorem minOutputAmount_sums_outAmount:
  "createPorgBatchLiquidateInstruction user targetTokenAccount feeAccount targetTokenMint
      dust minValue jupiterRoutes = Inl (Error ''Invalid public key input'')
   \<and> minOutputAmount jupiterRoutes = sum_list (map outAmount jupiterRoutes)
   \<and> minOutputAmount [quote_for SOL_MINT 500000000 4960000 4935200,
                       quote_for ''BONK'' 100000000 1990000 1980050] = 6950000
   \<and> sum_list (map otherAmountThreshold [quote_for SOL_MINT 500000000 4960000 4935200,
                       quote_for ''BONK'' 100000000 1990000 1980050]) = 6915250"
  by (simp add: createPorgBatchLiquidateInstruction_def getPorgStateAccount_throws
        minOutputAmount_def foldl_add_sum_list quote_for_def)

lemma createLiquidateTransaction_error:
  "fst (createLiquidateTransaction e w walletAddress options) = Inl err \<Longrightarrow>
   err = Error ''Failed to create liquidation transaction''"
  by (auto simp: createLiquidateTransaction_def split: prod.splits sum.splits)

text \<open>
  The planner reaches no end but its \<open>catch\<close>: where every earlier step succeeds, the
  batch instruction throws.
\<close>

lemma createLiquidateTransaction_try_fails:
  "\<exists>err. fst (createLiquidateTransaction_try e w walletAddress options) = Inl err"
  by (auto simp: createLiquidateTransaction_try_def createPorgBatchLiquidateInstruction_throws
        Let_def split: sum.splits prod.splits)

lemma createLiquidateTransaction_fails:
  "fst (createLiquidateTransaction e w walletAddress options)
     = Inl (Error ''Failed to create liquidation transaction'')"
proof -
  obtain err where "fst (createLiquidateTransaction_try e w walletAddress options) = Inl err"
    using createLiquidateTransaction_try_fails by blast
  then show ?thesis
    by (cases "createLiquidateTransaction_try e w walletAddress options")
       (simp add: createLiquidateTransaction_def)
qed

text \<open>
  C4 (as amended). When the selection is empty \<open>createLiquidateTransaction\<close> fails, and
  the error is the one with the message \<open>Failed to create liquidation transaction\<close>: the error of its
  \<open>catch\<close>, which is the error of every failure of the planner.
\<close>

theorem createLiquidateTransaction_empty_selection:
  assumes "getPortfolio e w walletAddress = (Inr p, w1)"
      and "createLiquidateTransaction_filter options (tokens p) = []"
  shows "createLiquidateTransaction e w walletAddress options
           = (Inl (Error ''Failed to create liquidation transaction''),
              if isPublicKey walletAddress then w1 else w)
       \<and> (\<forall>e' w' a' o' err. fst (createLiquidateTransaction e' w' a' o') = Inl err
             \<longrightarrow> err = Error ''Failed to create liquidation transaction'')"
  using assms createLiquidateTransaction_error
  by (auto simp: createLiquidateTransaction_def createLiquidateTransaction_try_def PublicKey_def)


lemma high_min_selection:
  "createLiquidateTransaction_filter high_min_options (tokens example_portfolio) = []"
  by (simp add: createLiquidateTransaction_filter_def high_min_options_def example_portfolio_def
        holding_def or_default_def SOL_MINT_def USDC_MINT_def)

theorem createLiquidateTransaction_empty_selection_witness:
  "fst (getPortfolio example_env empty_world example_wallet) = Inr example_portfolio
   \<and> createLiquidateTransaction_filter high_min_options (tokens example_portfolio) = []
   \<and> fst (createLiquidateTransaction example_env empty_world example_wallet high_min_options)
       = Inl (Error ''Failed to create liquidation transaction'')"
proof -
  obtain w1 where g: "getPortfolio example_env empty_world example_wallet = (Inr example_portfolio, w1)"
    using getPortfolio_example by (cases "getPortfolio example_env empty_world example_wallet") simp
  from createLiquidateTransaction_empty_selection [OF g high_min_selection]
  have "fst (createLiquidateTransaction example_env empty_world example_wallet high_min_options)
       = Inl (Error ''Failed to create liquidation transaction'')"
    by simp
  with getPortfolio_example high_min_selection show ?thesis by simp
qed

lemma getPortfolio_rpc_down:
  "fst (getPortfolio example_env_rpc_down empty_world example_wallet) = Inl (Error ''Failed to get portfolio'')"
  by (simp add: example_wallet_key getPortfolio_def getPortfolio_cached_def getPortfolio_scan_def
        empty_world_def example_env_rpc_down_def example_env_def)

text \<open>
  With every holding below the minimum the selection is empty; the simulation succeeds
  with zero totals, and the planner fails with the error it also gives when the chain RPC
  is down.
\<close>

theorem empty_selection_counterexample:
  "simulateLiquidation_filter high_min_options (tokens example_portfolio) = []
   \<and> fst (simulateLiquidation example_env empty_world example_wallet high_min_options)
       = Inr \<lparr>inputTokens = [], totalInputValue = 0, sim_targetToken = USDC_MINT,
              totalOutputAmount = 0, jupiterFees = 0, porgFee = 0, finalOutputAmount = 0,
              quotes = []\<rparr>
   \<and> fst (createLiquidateTransaction example_env empty_world example_wallet high_min_options)
       = Inl (Error ''Failed to create liquidation transaction'')
   \<and> fst (createLiquidateTransaction example_env_rpc_down empty_world example_wallet example_options)
       = Inl (Error ''Failed to create liquidation transaction'')"
proof -
  obtain w1 where g: "getPortfolio example_env empty_world example_wallet = (Inr example_portfolio, w1)"
    using getPortfolio_example by (cases "getPortfolio example_env empty_world example_wallet") simp
  obtain w2 where d: "getPortfolio example_env_rpc_down empty_world example_wallet
                        = (Inl (Error ''Failed to get portfolio''), w2)"
    using getPortfolio_rpc_down by (cases "getPortfolio example_env_rpc_down empty_world example_wallet") simp
  have f: "simulateLiquidation_filter high_min_options (tokens example_portfolio) = []"
    by (simp add: simulateLiquidation_filter_def high_min_options_def example_portfolio_def
          holding_def or_default_def SOL_MINT_def USDC_MINT_def)
  have s: "fst (simulateLiquidation example_env empty_world example_wallet high_min_options)
       = Inr \<lparr>inputTokens = [], totalInputValue = 0, sim_targetToken = USDC_MINT,
              totalOutputAmount = 0, jupiterFees = 0, porgFee = 0, finalOutputAmount = 0,
              quotes = []\<rparr>"
    unfolding simulateLiquidation_def g by (simp add: f) (simp add: high_min_options_def)
  have p: "fst (createLiquidateTransaction example_env empty_world example_wallet high_min_options)
       = Inl (Error ''Failed to create liquidation transaction'')"
    unfolding createLiquidateTransaction_def createLiquidateTransaction_try_def g
    by (simp add: PublicKey_def example_wallet_key high_min_selection)
  have u: "fst (createLiquidateTransaction example_env_rpc_down empty_world example_wallet example_options)
       = Inl (Error ''Failed to create liquidation transaction'')"
    unfolding createLiquidateTransaction_def createLiquidateTransaction_try_def d
    by (simp add: PublicKey_def example_wallet_key)
  from f s p u show ?thesis by simp
qed


text \<open>
  C8 (as amended). The filter of the simulation selects exactly the holdings the filter
  of the planner selects, and the input tokens of a simulation result are the planner's
  selection on the same portfolio. The fee formula (1 per cent of the gross output, final
  output = gross output minus fee) is that of the simulation; \<open>createLiquidateTransaction\<close>
  has no fee computation to compare it with.
\<close>

theorem simulation_selects_as_planner:
  "simulateLiquidation_filter options ts = createLiquidateTransaction_filter options ts
   \<and> (simulateLiquidation e w walletAddress options = (Inr r, w') \<longrightarrow>
        (\<exists>p. getPortfolio e w walletAddress = (Inr p, w')
            \<and> inputTokens r = createLiquidateTransaction_filter options (tokens p))
        \<and> porgFee r = totalOutputAmount r * (1 / 100)
        \<and> finalOutputAmount r = totalOutputAmount r - porgFee r)"
proof (intro conjI impI)
  show f: "simulateLiquidation_filter options ts = createLiquidateTransaction_filter options ts" for ts
    by (simp add: simulateLiquidation_filter_def createLiquidateTransaction_filter_def)
  assume a: "simulateLiquidation e w walletAddress options = (Inr r, w')"
  then obtain p :: Portfolio and qs out fees where
    g: "getPortfolio e w walletAddress = (Inr p, w')" and
    "quoteTokens e options (simulateLiquidation_filter options (tokens p)) [] 0 0 = Inr (qs, out, fees)"
    and r: "inputTokens r = simulateLiquidation_filter options (tokens p)"
      "quotes r = qs" "totalOutputAmount r = out"
      "porgFee r = out * 0.01" "finalOutputAmount r = out - out * 0.01"
    by (rule simulateLiquidation_result)
  from g r(1) show "\<exists>p. getPortfolio e w walletAddress = (Inr p, w')
          \<and> inputTokens r = createLiquidateTransaction_filter options (tokens p)"
    by (auto simp: f)
  from r show "porgFee r = totalOutputAmount r * (1 / 100)" by simp
  from r show "finalOutputAmount r = totalOutputAmount r - porgFee r" by simp
qed

lemma getPortfolio_example2:
  "fst (getPortfolio example_env2 empty_world example_wallet) = Inr example_portfolio"
  by (simp add: example_wallet_key getPortfolio_def getPortfolio_cached_def getPortfolio_scan_def
     empty_world_def example_env2_def example_env_def
     getTokenMetadata_def getTokenPrice_def getTokenPrice_miss_def getTokenPrice_try_def getTokenPrice_fetch_def
     Date_now_def defaultMetadata_def upsert_token_price_def SOL_MINT_def USDC_MINT_def CACHE_EXPIRATION_def Let_def
     example_portfolio_def holding_def)

lemma example_selection:
  "createLiquidateTransaction_filter example_options (tokens example_portfolio)
     = [holding SOL_MINT 9 0.5 5 (5000 / 93), holding ''BONK'' 5 1000 2 (2000 / 93)]"
  by (simp add: createLiquidateTransaction_filter_def example_options_def example_portfolio_def
        holding_def or_default_def SOL_MINT_def USDC_MINT_def)

lemma simulateLiquidation_example2:
  "\<exists>r. fst (simulateLiquidation example_env2 empty_world example_wallet example_options) = Inr r
       \<and> totalOutputAmount r = 13.9 \<and> porgFee r = 0.139"
proof -
  obtain w1 where g: "getPortfolio example_env2 empty_world example_wallet = (Inr example_portfolio, w1)"
    using getPortfolio_example2 by (cases "getPortfolio example_env2 empty_world example_wallet") simp
  show ?thesis
    unfolding simulateLiquidation_def g
    by (simp add: simulateLiquidation_filter_def example_portfolio_def
          example_options_def holding_def or_default_def getQuote_def example_env_def example_env2_def
          quote_for_def SOL_MINT_def USDC_MINT_def Let_def)
qed

text \<open>
  For the wallet the simulation previews a fee, and twice the fee when every quoted
  output is doubled; the planner returns no plan in either case, only the error of its
  \<open>catch\<close>.
\<close>

theorem planner_fee_counterexample:
  "fst (createLiquidateTransaction example_env empty_world example_wallet example_options)
     = Inl (Error ''Failed to create liquidation transaction'')
   \<and> fst (createLiquidateTransaction example_env2 empty_world example_wallet example_options)
     = Inl (Error ''Failed to create liquidation transaction'')
   \<and> (\<exists>r. fst (simulateLiquidation example_env empty_world example_wallet example_options) = Inr r
        \<and> totalOutputAmount r = 6.95 \<and> porgFee r = 0.0695)
   \<and> (\<exists>r. fst (simulateLiquidation example_env2 empty_world example_wallet example_options) = Inr r
        \<and> totalOutputAmount r = 13.9 \<and> porgFee r = 0.139)"
  using createLiquidateTransaction_fails [of example_env empty_world example_wallet example_options]
        createLiquidateTransaction_fails [of example_env2 empty_world example_wallet example_options]
        simulateLiquidation_example simulateLiquidation_example2
  by simp

theorem simulation_selects_as_planner_witness:
  "\<exists>r w'. simulateLiquidation example_env empty_world example_wallet example_options = (Inr r, w')
       \<and> inputTokens r = createLiquidateTransaction_filter example_options (tokens example_portfolio)
       \<and> inputTokens r = [holding SOL_MINT 9 0.5 5 (5000 / 93), holding ''BONK'' 5 1000 2 (2000 / 93)]
       \<and> porgFee r = totalOutputAmount r * (1 / 100)"
proof -
  obtain r w' where s: "simulateLiquidation example_env empty_world example_wallet example_options = (Inr r, w')"
    using simulateLiquidation_example
    by (cases "simulateLiquidation example_env empty_world example_wallet example_options") simp
  obtain w1 where g: "getPortfolio example_env empty_world example_wallet = (Inr example_portfolio, w1)"
    using getPortfolio_example by (cases "getPortfolio example_env empty_world example_wallet") simp
  from simulation_selects_as_planner [of example_options "[]" example_env empty_world example_wallet r w']
    s g
  have "inputTokens r = createLiquidateTransaction_filter example_options (tokens example_portfolio)
       \<and> porgFee r = totalOutputAmount r * (1 / 100)"
    by auto
  with s show ?thesis by (auto simp: example_selection)
qed

end
